theory Spec2Isabelle
  imports Main
begin

section \<open>JavaScript values held by the static side of HotKeys\<close>

text \<open>
  The static properties of the class hold plain JavaScript values: the log level is a string,
  the ignore-events condition is a function of a keyboard event. Three function values occur
  in \<^verbatim>\<open>src/lib/HotKeys.js\<close>: the static method \<^verbatim>\<open>ignoreEventsCondition\<close> the
  class declares, the function of the same name imported from
  \<^verbatim>\<open>./lib/ignoreEventsCondition\<close>, and whatever function a caller supplies.
\<close>

datatype 'e jsfun =
    ClassMethod
  | ImportedFn
  | Closure "'e \<Rightarrow> bool"

datatype 'e jsval =
    Undefined
  | Null
  | Bool bool
  | Num int
  | Str string
  | Fn "'e jsfun"

datatype error = TypeError

text \<open>The truthiness test of \<^verbatim>\<open>if (v)\<close>.\<close>

fun truthy :: "'e jsval \<Rightarrow> bool" where
  "truthy Undefined = False"
| "truthy Null = False"
| "truthy (Bool b) = b"
| "truthy (Num n) = (n \<noteq> 0)"
| "truthy (Str s) = (s \<noteq> [])"
| "truthy (Fn f) = True"

text \<open>
  Calling a value with one event. The imported default predicate lives in a file that is not
  part of the sources at hand, so it is the parameter \<open>dflt\<close>. The class's own static method
  is \<^verbatim>\<open>return ignoreEventsCondition(event)\<close>: it calls the imported function. A value
  that is not a function cannot be called.
\<close>

fun callValue :: "('e \<Rightarrow> bool) \<Rightarrow> 'e jsval \<Rightarrow> 'e \<Rightarrow> error + bool" where
  "callValue dflt (Fn ClassMethod) e = Inr (dflt e)"
| "callValue dflt (Fn ImportedFn) e = Inr (dflt e)"
| "callValue dflt (Fn (Closure f)) e = Inr (f e)"
| "callValue dflt v e = Inl TypeError"

datatype KeyEventName = KeyDown | KeyPress | KeyUp

text \<open>
  A plain object, such as the stored configuration, is the table of its properties. An
  object that a caller passes in may have more to it than its own enumerable properties:
  reading a property also finds the ones it inherits and the ones that are not enumerable,
  while an object spread copies the own enumerable ones only. So an argument object is two
  tables: its own enumerable properties, and what else a read finds. Properties are data
  properties with string names. A value that is neither \<^verbatim>\<open>undefined\<close> nor
  \<^verbatim>\<open>null\<close> is read and spread through its wrapper object, so it is an object here as
  well.
\<close>

type_synonym 'e properties = "string \<rightharpoonup> 'e jsval"

record 'e jsobject =
  ownEnumerable :: "'e properties"
  otherReadable :: "'e properties"

datatype 'e argument =
    ArgUndefined
  | ArgNull
  | ArgObject "'e jsobject"

section \<open>The static side: configuration and the ignore-events condition\<close>

record 'e statics =
  ignoreEventsCondition :: "'e jsval"
  configuration :: "'e properties"
  defaultKeyEvent :: KeyEventName

text \<open>The class as declared: lines 77--83 and 104 of the source.\<close>

definition initialStatics :: "'e statics" where
  "initialStatics =
     \<lparr> ignoreEventsCondition = Fn ClassMethod,
       configuration = [''logLevel'' \<mapsto> Str ''warn''],
       defaultKeyEvent = KeyPress \<rparr>"

definition setIgnoreEventsCondition :: "'e jsval \<Rightarrow> 'e statics \<Rightarrow> 'e statics" where
  "setIgnoreEventsCondition func S = S\<lparr>ignoreEventsCondition := func\<rparr>"

definition resetIgnoreEventsCondition :: "'e statics \<Rightarrow> 'e statics" where
  "resetIgnoreEventsCondition S = S\<lparr>ignoreEventsCondition := Fn ImportedFn\<rparr>"

text \<open>Reading a property of a plain object; one it does not have is \<^verbatim>\<open>undefined\<close>.\<close>

definition getProp :: "'e properties \<Rightarrow> string \<Rightarrow> 'e jsval" where
  "getProp obj k = (case obj k of None \<Rightarrow> Undefined | Some v \<Rightarrow> v)"

text \<open>
  Reading a property of an argument object, as the destructuring
  \<^verbatim>\<open>const { ignoreEventsFilter } = configuration\<close> does: an own enumerable property
  first, then whatever else the object lets a read find.
\<close>

definition readProp :: "'e jsobject \<Rightarrow> string \<Rightarrow> 'e jsval" where
  "readProp obj k =
     (case ownEnumerable obj k of
        Some v \<Rightarrow> v
      | None \<Rightarrow> getProp (otherReadable obj) k)"

definition emptyObject :: "'e jsobject" where
  "emptyObject = \<lparr> ownEnumerable = Map.empty, otherReadable = Map.empty \<rparr>"

text \<open>
  \<^verbatim>\<open>static configure(configuration = {})\<close>, lines 91--99. The default \<^verbatim>\<open>{}\<close>
  replaces an argument that is absent or \<^verbatim>\<open>undefined\<close>, and no other. Destructuring
  \<^verbatim>\<open>null\<close> throws a TypeError, before anything is assigned. The object spread
  \<^verbatim>\<open>{ ...this.configuration, ...configuration }\<close> copies the stored configuration and
  then the own enumerable properties of the argument over it.
\<close>

definition configure :: "'e argument \<Rightarrow> 'e statics \<Rightarrow> error + 'e statics" where
  "configure arg S =
     (let configuration' =
            (case arg of
               ArgUndefined \<Rightarrow> Some emptyObject
             | ArgNull \<Rightarrow> None
             | ArgObject obj \<Rightarrow> Some obj)
      in case configuration' of
           None \<Rightarrow> Inl TypeError
         | Some c \<Rightarrow>
             (let ignoreEventsFilter = readProp c ''ignoreEventsFilter'';
                  S1 = (if truthy ignoreEventsFilter
                        then setIgnoreEventsCondition ignoreEventsFilter S else S)
              in Inr (S1\<lparr>configuration := configuration S1 ++ ownEnumerable c\<rparr>)))"


text \<open>\<^verbatim>\<open>HotKeys.ignoreEventsCondition(event)\<close>: call whatever the property holds now.\<close>

definition callIgnoreEventsCondition ::
  "('e \<Rightarrow> bool) \<Rightarrow> 'e statics \<Rightarrow> 'e \<Rightarrow> error + bool" where
  "callIgnoreEventsCondition dflt S e = callValue dflt (ignoreEventsCondition S) e"

section \<open>The key event manager as the component sees it\<close>

text \<open>
  \<^verbatim>\<open>KeyEventManager\<close> is imported from a file that is not among the sources. The
  component only calls six of its methods and reads what they return, so the manager is a
  parameter: a state of some type \<open>'m\<close> and one function per method, each returning its
  result together with the manager's next state. Focus tree ids and component indices are
  natural numbers; \<^verbatim>\<open>undefined\<close> is \<open>None\<close>. Key maps and handler tables are
  of the arbitrary types \<open>'k\<close> and \<open>'h\<close>: the component passes them on untouched.
\<close>

record focusOptions =
  optDefaultKeyEvent :: KeyEventName

record 'e eventOptions =
  optIgnoreEventsCondition :: "'e jsval"

record ('m, 'e, 'k, 'h) manager =
  handleFocus :: "'k \<Rightarrow> 'h \<Rightarrow> focusOptions \<Rightarrow> 'm \<Rightarrow> (nat \<times> nat) \<times> 'm"
  updateComponent :: "nat option \<Rightarrow> nat option \<Rightarrow> 'k \<Rightarrow> 'h \<Rightarrow> focusOptions \<Rightarrow> 'm \<Rightarrow> 'm"
  handleBlur :: "nat option \<Rightarrow> nat option \<Rightarrow> 'm \<Rightarrow> bool \<times> 'm"
  handleKeyDown :: "'e \<Rightarrow> nat option \<Rightarrow> nat option \<Rightarrow> 'e eventOptions \<Rightarrow> 'm \<Rightarrow> bool \<times> 'm"
  handleKeyPress :: "'e \<Rightarrow> nat option \<Rightarrow> nat option \<Rightarrow> 'e eventOptions \<Rightarrow> 'm \<Rightarrow> bool \<times> 'm"
  handleKeyUp :: "'e \<Rightarrow> nat option \<Rightarrow> nat option \<Rightarrow> 'e eventOptions \<Rightarrow> 'm \<Rightarrow> bool \<times> 'm"

text \<open>
  \<^verbatim>\<open>static getKeyEventManager()\<close> asks \<^verbatim>\<open>KeyEventManager.getInstance\<close> for the
  singleton, handing it a logger built from the configured log level. \<open>getInstance\<close> is
  the parameter: any function from that log level to a manager.
\<close>

definition getKeyEventManager ::
  "('e jsval \<Rightarrow> ('m, 'e, 'k, 'h) manager) \<Rightarrow> 'e statics \<Rightarrow> ('m, 'e, 'k, 'h) manager" where
  "getKeyEventManager getInstance S = getInstance (getProp (configuration S) ''logLevel'')"

section \<open>A HotKeys component\<close>

text \<open>
  The props the component reads. \<open>onFocus\<close> and \<open>onBlur\<close> are optional callbacks of the
  user; a callback is known by its name \<open>'cb\<close>, and calling it is an observable event.
\<close>

record ('k, 'h, 'cb) props =
  keyMap :: 'k
  handlers :: 'h
  onFocus :: "'cb option"
  onBlur :: "'cb option"

text \<open>
  The instance fields. All three are unset (\<^verbatim>\<open>undefined\<close>) until a method assigns
  them; \<open>focusTreeIds\<close> is then a JavaScript array.
\<close>

record ('k, 'h, 'cb) component =
  cprops :: "('k, 'h, 'cb) props"
  focusTreeIds :: "nat list option"
  componentIndex :: "nat option"
  focused :: "bool option"

definition newComponent :: "('k, 'h, 'cb) props \<Rightarrow> ('k, 'h, 'cb) component" where
  "newComponent p =
     \<lparr> cprops = p, focusTreeIds = None, componentIndex = None, focused = None \<rparr>"

text \<open>
  What an observer outside the component sees: the calls of user callbacks and of manager
  methods, with their arguments, in the order they are made.
\<close>

datatype ('e, 'k, 'h, 'cb, 'a) call =
    UserCallback 'cb "'a list"
  | MgrHandleFocus 'k 'h focusOptions
  | MgrUpdateComponent "nat option" "nat option" 'k 'h focusOptions
  | MgrHandleBlur "nat option" "nat option"
  | MgrHandleKey KeyEventName 'e "nat option" "nat option" "'e eventOptions"

record ('m, 'e, 'k, 'h, 'cb, 'a) world =
  comp :: "('k, 'h, 'cb) component"
  mstate :: 'm
  trace :: "('e, 'k, 'h, 'cb, 'a) call list"

text \<open>
  Lines 202--220: the array of focus tree ids. The private members of the class are written
  without their leading underscore, and the handlers, whose names the manager's methods
  share, with the prefix \<open>hk\<close>: \<^verbatim>\<open>_handleFocus\<close> is \<open>hkHandleFocus\<close>.
\<close>

definition focusTreeIdsPush ::
  "nat \<Rightarrow> ('k, 'h, 'cb) component \<Rightarrow> ('k, 'h, 'cb) component" where
  "focusTreeIdsPush x c =
     c\<lparr>focusTreeIds :=
          Some ((case focusTreeIds c of None \<Rightarrow> [] | Some ids \<Rightarrow> ids) @ [x])\<rparr>"

definition focusTreeIdsShift :: "('k, 'h, 'cb) component \<Rightarrow> ('k, 'h, 'cb) component" where
  "focusTreeIdsShift c =
     (case focusTreeIds c of
        None \<Rightarrow> c
      | Some ids \<Rightarrow> c\<lparr>focusTreeIds := Some (drop 1 ids)\<rparr>)"

definition getFocusTreeId :: "('k, 'h, 'cb) component \<Rightarrow> nat option" where
  "getFocusTreeId c =
     (case focusTreeIds c of
        None \<Rightarrow> None
      | Some [] \<Rightarrow> None
      | Some (x # _) \<Rightarrow> Some x)"

definition getFocusOptions :: "'e statics \<Rightarrow> focusOptions" where
  "getFocusOptions S = \<lparr> optDefaultKeyEvent = defaultKeyEvent S \<rparr>"

definition getEventOptions :: "'e statics \<Rightarrow> 'e eventOptions" where
  "getEventOptions S = \<lparr> optIgnoreEventsCondition = ignoreEventsCondition S \<rparr>"

text \<open>
  A user callback is called with the handler's own arguments, if the prop is set. What the
  callback does is its own business: the model records that it was called, and with what,
  and takes it to return.
\<close>

definition callProp ::
  "'cb option \<Rightarrow> 'a list \<Rightarrow> ('m, 'e, 'k, 'h, 'cb, 'a) world \<Rightarrow> ('m, 'e, 'k, 'h, 'cb, 'a) world" where
  "callProp cb args w =
     (case cb of
        None \<Rightarrow> w
      | Some f \<Rightarrow> w\<lparr>trace := trace w @ [UserCallback f args]\<rparr>)"

text \<open>Lines 222--226.\<close>

definition componentWillReceiveProps ::
  "('e jsval \<Rightarrow> ('m, 'e, 'k, 'h) manager) \<Rightarrow> 'e statics \<Rightarrow> ('k, 'h, 'cb) props \<Rightarrow>
     ('m, 'e, 'k, 'h, 'cb, 'a) world \<Rightarrow> ('m, 'e, 'k, 'h, 'cb, 'a) world" where
  "componentWillReceiveProps getInstance S nextProps w =
     (let c = comp w in
      if focused c = Some True then
        w\<lparr>mstate :=
             updateComponent (getKeyEventManager getInstance S) (getFocusTreeId c)
               (componentIndex c) (keyMap nextProps) (handlers nextProps)
               (getFocusOptions S) (mstate w),
           trace :=
             trace w @ [MgrUpdateComponent (getFocusTreeId c) (componentIndex c)
               (keyMap nextProps) (handlers nextProps) (getFocusOptions S)]\<rparr>
      else w)"

text \<open>Lines 237--248.\<close>

definition hkHandleFocus ::
  "('e jsval \<Rightarrow> ('m, 'e, 'k, 'h) manager) \<Rightarrow> 'e statics \<Rightarrow> 'a list \<Rightarrow>
     ('m, 'e, 'k, 'h, 'cb, 'a) world \<Rightarrow> ('m, 'e, 'k, 'h, 'cb, 'a) world" where
  "hkHandleFocus getInstance S args w =
     (let w1 = callProp (onFocus (cprops (comp w))) args w;
          p = cprops (comp w1);
          ((focusTreeId, componentIndex'), m') =
             handleFocus (getKeyEventManager getInstance S) (keyMap p) (handlers p)
               (getFocusOptions S) (mstate w1);
          tr = trace w1 @ [MgrHandleFocus (keyMap p) (handlers p) (getFocusOptions S)];
          c1 = (comp w1)\<lparr>componentIndex := Some componentIndex'\<rparr>;
          c2 = focusTreeIdsPush focusTreeId c1
      in \<lparr> comp = c2\<lparr>focused := Some True\<rparr>, mstate = m', trace = tr \<rparr>)"

text \<open>Lines 255--267.\<close>

definition hkHandleBlur ::
  "('e jsval \<Rightarrow> ('m, 'e, 'k, 'h) manager) \<Rightarrow> 'e statics \<Rightarrow> 'a list \<Rightarrow>
     ('m, 'e, 'k, 'h, 'cb, 'a) world \<Rightarrow> ('m, 'e, 'k, 'h, 'cb, 'a) world" where
  "hkHandleBlur getInstance S args w =
     (let w1 = callProp (onBlur (cprops (comp w))) args w;
          c = comp w1;
          (retainCurrentFocusTreeId, m') =
             handleBlur (getKeyEventManager getInstance S) (getFocusTreeId c)
               (componentIndex c) (mstate w1);
          tr = trace w1 @ [MgrHandleBlur (getFocusTreeId c) (componentIndex c)];
          c1 = (if \<not> retainCurrentFocusTreeId then focusTreeIdsShift c else c)
      in \<lparr> comp = c1\<lparr>focused := Some False\<rparr>, mstate = m', trace = tr \<rparr>)"

text \<open>Lines 228--230: unmounting is a blur with no arguments.\<close>

definition componentWillUnmount ::
  "('e jsval \<Rightarrow> ('m, 'e, 'k, 'h) manager) \<Rightarrow> 'e statics \<Rightarrow>
     ('m, 'e, 'k, 'h, 'cb, 'a) world \<Rightarrow> ('m, 'e, 'k, 'h, 'cb, 'a) world" where
  "componentWillUnmount getInstance S w = hkHandleBlur getInstance S [] w"

text \<open>Lines 274--280.\<close>

definition hkHandleKeyDown ::
  "('e jsval \<Rightarrow> ('m, 'e, 'k, 'h) manager) \<Rightarrow> 'e statics \<Rightarrow> 'e \<Rightarrow>
     ('m, 'e, 'k, 'h, 'cb, 'a) world \<Rightarrow> ('m, 'e, 'k, 'h, 'cb, 'a) world" where
  "hkHandleKeyDown getInstance S event w =
     (let c = comp w;
          (discardFocusTreeId, m') =
             handleKeyDown (getKeyEventManager getInstance S) event
               (getFocusTreeId c) (componentIndex c) (getEventOptions S) (mstate w);
          tr = trace w @ [MgrHandleKey KeyDown event (getFocusTreeId c) (componentIndex c)
                 (getEventOptions S)]
      in \<lparr> comp = (if discardFocusTreeId then focusTreeIdsShift c else c),
           mstate = m', trace = tr \<rparr>)"

text \<open>Lines 287--293.\<close>

definition hkHandleKeyPress ::
  "('e jsval \<Rightarrow> ('m, 'e, 'k, 'h) manager) \<Rightarrow> 'e statics \<Rightarrow> 'e \<Rightarrow>
     ('m, 'e, 'k, 'h, 'cb, 'a) world \<Rightarrow> ('m, 'e, 'k, 'h, 'cb, 'a) world" where
  "hkHandleKeyPress getInstance S event w =
     (let c = comp w;
          (discardFocusTreeId, m') =
             handleKeyPress (getKeyEventManager getInstance S) event
               (getFocusTreeId c) (componentIndex c) (getEventOptions S) (mstate w);
          tr = trace w @ [MgrHandleKey KeyPress event (getFocusTreeId c) (componentIndex c)
                 (getEventOptions S)]
      in \<lparr> comp = (if discardFocusTreeId then focusTreeIdsShift c else c),
           mstate = m', trace = tr \<rparr>)"

text \<open>Lines 300--306.\<close>

definition hkHandleKeyUp ::
  "('e jsval \<Rightarrow> ('m, 'e, 'k, 'h) manager) \<Rightarrow> 'e statics \<Rightarrow> 'e \<Rightarrow>
     ('m, 'e, 'k, 'h, 'cb, 'a) world \<Rightarrow> ('m, 'e, 'k, 'h, 'cb, 'a) world" where
  "hkHandleKeyUp getInstance S event w =
     (let c = comp w;
          (discardFocusTreeId, m') =
             handleKeyUp (getKeyEventManager getInstance S) event
               (getFocusTreeId c) (componentIndex c) (getEventOptions S) (mstate w);
          tr = trace w @ [MgrHandleKey KeyUp event (getFocusTreeId c) (componentIndex c)
                 (getEventOptions S)]
      in \<lparr> comp = (if discardFocusTreeId then focusTreeIdsShift c else c),
           mstate = m', trace = tr \<rparr>)"

text \<open>
  The host calls one of the three handlers, by the name of the event; \<open>managerHandleKey\<close>
  is the manager method that handler calls.
\<close>

fun hkHandleKey ::
  "KeyEventName \<Rightarrow> ('e jsval \<Rightarrow> ('m, 'e, 'k, 'h) manager) \<Rightarrow> 'e statics \<Rightarrow> 'e \<Rightarrow>
     ('m, 'e, 'k, 'h, 'cb, 'a) world \<Rightarrow> ('m, 'e, 'k, 'h, 'cb, 'a) world" where
  "hkHandleKey KeyDown = hkHandleKeyDown"
| "hkHandleKey KeyPress = hkHandleKeyPress"
| "hkHandleKey KeyUp = hkHandleKeyUp"

declare hkHandleKey.simps [simp del]

fun managerHandleKey ::
  "KeyEventName \<Rightarrow> ('m, 'e, 'k, 'h) manager \<Rightarrow>
     'e \<Rightarrow> nat option \<Rightarrow> nat option \<Rightarrow> 'e eventOptions \<Rightarrow> 'm \<Rightarrow> bool \<times> 'm" where
  "managerHandleKey KeyDown M = handleKeyDown M"
| "managerHandleKey KeyPress M = handleKeyPress M"
| "managerHandleKey KeyUp M = handleKeyUp M"

section \<open>A scripted manager, for running the component on concrete inputs\<close>

text \<open>
  To run the component, something has to play the manager. The scripted manager answers from
  three lists, one answer per call, front first; when a list is used up it answers
  \<open>(0, 0)\<close> to a focus and \<open>False\<close> to the rest. It stands for any environment:
  every finite sequence of manager results can be scripted.
\<close>

record script =
  focusAnswers :: "(nat \<times> nat) list"
  blurAnswers :: "bool list"
  keyAnswers :: "bool list"

definition scriptedKey :: "script \<Rightarrow> bool \<times> script" where
  "scriptedKey s =
     (case keyAnswers s of
        [] \<Rightarrow> (False, s)
      | b # bs \<Rightarrow> (b, s\<lparr>keyAnswers := bs\<rparr>))"

definition scriptedManager :: "(script, 'e, 'k, 'h) manager" where
  "scriptedManager =
     \<lparr> handleFocus = (\<lambda>km hs opts s.
         (case focusAnswers s of
            [] \<Rightarrow> ((0, 0), s)
          | a # as \<Rightarrow> (a, s\<lparr>focusAnswers := as\<rparr>))),
       updateComponent = (\<lambda>t i km hs opts s. s),
       handleBlur = (\<lambda>t i s.
         (case blurAnswers s of
            [] \<Rightarrow> (False, s)
          | b # bs \<Rightarrow> (b, s\<lparr>blurAnswers := bs\<rparr>))),
       handleKeyDown = (\<lambda>e t i opts s. scriptedKey s),
       handleKeyPress = (\<lambda>e t i opts s. scriptedKey s),
       handleKeyUp = (\<lambda>e t i opts s. scriptedKey s) \<rparr>"

section \<open>The key event manager, from its specification\<close>

text \<open>
  Modelled from the spec: the combo of the missing manager (\<^verbatim>\<open>./lib/KeyEventManager\<close>
  is not among the sources), a set of keys pressed together plus the event name it targets.
\<close>

type_synonym combo = "string list \<times> KeyEventName"

text \<open>
  Modelled from the spec: the KeySequencePattern of the missing manager, a single combo, an
  ordered list of combos, or a list of alternative patterns for one action.
\<close>

datatype pattern =
    Single combo
  | Sequence "combo list"
  | Alternatives "pattern list"

text \<open>
  Modelled from the spec: the MatchResult of the missing Sequence Matcher,
  \<^verbatim>\<open>{none, partial, complete}\<close>.
\<close>

datatype MatchResult = NoMatch | Partial | Complete

text \<open>
  Modelled from the spec: a ComponentRegistration of the missing manager,
  \<^verbatim>\<open>{ componentIndex, keyMap, handlers, options }\<close>. A handler is known by its name
  \<open>'f\<close>; key maps and handler tables list their entries in declaration order.
\<close>

record 'f registration =
  regIndex :: nat
  regKeyMap :: "(string \<times> pattern) list"
  regHandlers :: "(string \<times> 'f) list"
  regOptions :: focusOptions

text \<open>
  Modelled from the spec: the KeyHistory of the missing manager, the keys currently held
  down and the combos completed since the last dispatch or reset.
\<close>

record KeyHistory =
  held :: "string list"
  completed :: "combo list"

text \<open>Modelled from the spec: the KeyHistory of the missing manager after a reset.\<close>

definition emptyHistory :: KeyHistory where
  "emptyHistory = \<lparr> held = [], completed = [] \<rparr>"

text \<open>
  Modelled from the spec: the state of the missing manager. The focus tree stack has the
  most recently focused tree at the front; each tree has its registrations in order, outer
  to inner; two counters hand out ids; \<open>invoked\<close> lists the handler calls made so far and
  \<open>warnings\<close> counts the warnings logged.
\<close>

record ('e, 'f) managerState =
  focusTreeStack :: "nat list"
  registry :: "nat \<Rightarrow> 'f registration list"
  nextFocusTreeId :: nat
  nextComponentIndex :: nat
  keyHistory :: KeyHistory
  invoked :: "('f \<times> 'e) list"
  warnings :: nat

text \<open>
  Modelled from the spec: the missing manager when it is created, with empty stack and
  registry.
\<close>

definition initialManagerState :: "('e, 'f) managerState" where
  "initialManagerState =
     \<lparr> focusTreeStack = [], registry = (\<lambda>t. []), nextFocusTreeId = 0,
       nextComponentIndex = 0, keyHistory = emptyHistory, invoked = [], warnings = 0 \<rparr>"

text \<open>Modelled from the spec: the missing manager logging a warning.\<close>

definition warn :: "('e, 'f) managerState \<Rightarrow> ('e, 'f) managerState" where
  "warn m = m\<lparr>warnings := Suc (warnings m)\<rparr>"

text \<open>
  Modelled from the spec: what the missing manager is given from outside. The Sequence
  Matcher is a component of its own with the contract \<open>match(history, pattern)\<close>, told
  here the current event's name as well; an event has a key name; the imported default
  predicate is needed to call an ignore-events condition.
\<close>

record 'e collaborators =
  defaultIgnore :: "'e \<Rightarrow> bool"
  keyOf :: "'e \<Rightarrow> string"
  matcher :: "KeyHistory \<Rightarrow> KeyEventName \<Rightarrow> pattern \<Rightarrow> MatchResult"

text \<open>
  Modelled from the spec: \<open>handleFocus\<close> of the missing manager. With no tree on the stack a
  new focus tree id is allocated and pushed, and the key history is reset; otherwise the
  top id is reused. A new component index is allocated, the registration is stored as the
  innermost of its tree, and both ids are returned.
\<close>

definition mgrHandleFocus ::
  "(string \<times> pattern) list \<Rightarrow> (string \<times> 'f) list \<Rightarrow> focusOptions \<Rightarrow>
     ('e, 'f) managerState \<Rightarrow> (nat \<times> nat) \<times> ('e, 'f) managerState" where
  "mgrHandleFocus km hs opts m =
     (let (t, m1) =
            (case focusTreeStack m of
               [] \<Rightarrow> (nextFocusTreeId m,
                       m\<lparr>focusTreeStack := [nextFocusTreeId m],
                          nextFocusTreeId := Suc (nextFocusTreeId m),
                          keyHistory := emptyHistory\<rparr>)
             | tid # _ \<Rightarrow> (tid, m));
          i = nextComponentIndex m1;
          r = \<lparr> regIndex = i, regKeyMap = km, regHandlers = hs, regOptions = opts \<rparr>
      in ((t, i),
          m1\<lparr>registry := (registry m1)(t := registry m1 t @ [r]),
              nextComponentIndex := Suc i\<rparr>))"

text \<open>
  Modelled from the spec: \<open>updateComponent\<close> of the missing manager. The stored key map and
  handlers of the registration are replaced; unknown ids log a warning and change nothing
  else.
\<close>

definition mgrUpdateComponent ::
  "nat option \<Rightarrow> nat option \<Rightarrow> (string \<times> pattern) list \<Rightarrow> (string \<times> 'f) list \<Rightarrow>
     focusOptions \<Rightarrow> ('e, 'f) managerState \<Rightarrow> ('e, 'f) managerState" where
  "mgrUpdateComponent t i km hs opts m =
     (case t of
        None \<Rightarrow> warn m
      | Some tid \<Rightarrow>
          if list_ex (\<lambda>r. Some (regIndex r) = i) (registry m tid) then
            m\<lparr>registry := (registry m)(tid :=
                 map (\<lambda>r. if Some (regIndex r) = i
                           then r\<lparr>regKeyMap := km, regHandlers := hs, regOptions := opts\<rparr>
                           else r) (registry m tid))\<rparr>
          else warn m)"

text \<open>
  Modelled from the spec: \<open>handleBlur\<close> of the missing manager. The registration is removed;
  the result is true if other registrations remain in the same tree, and false if none
  does, in which case the tree leaves the stack. Unknown ids log a warning.
\<close>

definition mgrHandleBlur ::
  "nat option \<Rightarrow> nat option \<Rightarrow> ('e, 'f) managerState \<Rightarrow> bool \<times> ('e, 'f) managerState" where
  "mgrHandleBlur t i m =
     (case t of
        None \<Rightarrow> (False, warn m)
      | Some tid \<Rightarrow>
          (let regs = registry m tid;
               rest = filter (\<lambda>r. Some (regIndex r) \<noteq> i) regs;
               m1 = (if length rest = length regs then warn m
                     else m\<lparr>registry := (registry m)(tid := rest)\<rparr>)
           in if rest = []
              then (False, m1\<lparr>focusTreeStack := removeAll tid (focusTreeStack m1)\<rparr>)
              else (True, m1)))"

text \<open>
  Modelled from the spec: step 4 of the dispatch routine of the missing manager, the part of
  a tree's registrations, outer to inner, that ends with the registration at
  \<open>componentIndex\<close>: the component and its ancestors. There is none when the index is not
  registered in the tree.
\<close>

fun uptoIndex :: "nat \<Rightarrow> 'f registration list \<Rightarrow> 'f registration list option" where
  "uptoIndex i [] = None"
| "uptoIndex i (r # rs) =
     (if regIndex r = i then Some [r]
      else (case uptoIndex i rs of None \<Rightarrow> None | Some pre \<Rightarrow> Some (r # pre)))"

text \<open>
  Modelled from the spec: step 4 of the dispatch routine of the missing manager, the walk
  from the registration at \<open>componentIndex\<close> outward to the tree root. The result has the
  innermost registration first; it is empty on a registry miss.
\<close>

definition chainFrom :: "'f registration list \<Rightarrow> nat option \<Rightarrow> 'f registration list" where
  "chainFrom regs i =
     (case i of
        None \<Rightarrow> []
      | Some ix \<Rightarrow> (case uptoIndex ix regs of None \<Rightarrow> [] | Some pre \<Rightarrow> rev pre))"

text \<open>
  Modelled from the spec: handler resolution in the missing Binding Registry. Over a chain
  of registrations, innermost first, the innermost component that has a handler for the
  action provides it; a component without one lets the next outer one through.
\<close>

fun lookupHandler :: "string \<Rightarrow> 'f registration list \<Rightarrow> 'f option" where
  "lookupHandler a [] = None"
| "lookupHandler a (r # rs) =
     (case map_of (regHandlers r) a of
        Some h \<Rightarrow> Some h
      | None \<Rightarrow> lookupHandler a rs)"

text \<open>
  Modelled from the spec: shadowing in the missing Binding Registry. Over key map entries
  listed innermost first, an inner component's entry for an action hides every outer entry
  for the same action.
\<close>

fun shadow :: "string list \<Rightarrow> (string \<times> pattern \<times> nat) list \<Rightarrow> (string \<times> pattern \<times> nat) list" where
  "shadow seen [] = []"
| "shadow seen ((a, p, i) # bs) =
     (if a \<in> set seen then shadow seen bs else (a, p, i) # shadow (a # seen) bs)"

text \<open>
  Modelled from the spec: the key map entries of a chain of registrations of the missing
  manager, innermost first, each with the index of the component it comes from.
\<close>

definition keyMapEntries :: "'f registration list \<Rightarrow> (string \<times> pattern \<times> nat) list" where
  "keyMapEntries chain =
     concat (map (\<lambda>r. map (\<lambda>(a, p). (a, p, regIndex r)) (regKeyMap r)) chain)"

text \<open>
  Modelled from the spec: \<open>resolveBindings\<close> of the missing Binding Registry. Key maps and
  handlers are resolved independently by action name, then combined; an action with no
  handler in the chain is not dispatched. The result is ordered innermost first.
\<close>

definition resolveBindings ::
  "'f registration list \<Rightarrow> (string \<times> pattern \<times> 'f \<times> nat) list" where
  "resolveBindings chain =
     List.map_filter
       (\<lambda>(a, p, i). case lookupHandler a chain of
                       None \<Rightarrow> None
                     | Some h \<Rightarrow> Some (a, p, h, i))
       (shadow [] (keyMapEntries chain))"

text \<open>
  Modelled from the spec: the alternation rule of the missing Sequence Matcher. Each branch
  is evaluated independently, in declaration order; \<open>branches\<close> lists the patterns that are
  not alternations.
\<close>

fun branches :: "pattern \<Rightarrow> pattern list" where
  "branches (Alternatives ps) = concat (map branches ps)"
| "branches p = [p]"

text \<open>
  Modelled from the spec: step 5 of the dispatch routine of the missing manager, the first
  binding, in order, with a branch the matcher finds complete.
\<close>

definition firstComplete ::
  "(KeyHistory \<Rightarrow> KeyEventName \<Rightarrow> pattern \<Rightarrow> MatchResult) \<Rightarrow> KeyHistory \<Rightarrow> KeyEventName \<Rightarrow>
     (string \<times> pattern \<times> 'f \<times> nat) list \<Rightarrow> (string \<times> pattern \<times> 'f \<times> nat) option" where
  "firstComplete mt h name bs =
     List.find (\<lambda>(a, q, f, i). mt h name q = Complete)
       (concat (map (\<lambda>(a, p, f, i). map (\<lambda>q. (a, q, f, i)) (branches p)) bs))"

text \<open>
  Modelled from the spec: step 3 of the dispatch routine of the missing manager. A key down
  adds the key to the held set, a key up removes it, and on the configured default key event
  the held keys are appended as a completed combo.
\<close>

definition recordEvent :: "KeyEventName \<Rightarrow> KeyEventName \<Rightarrow> string \<Rightarrow> KeyHistory \<Rightarrow> KeyHistory" where
  "recordEvent dke name k h =
     (let h1 = (if name = KeyDown
                then h\<lparr>held := (if k \<in> set (held h) then held h else held h @ [k])\<rparr>
                else if name = KeyUp then h\<lparr>held := removeAll k (held h)\<rparr>
                else h)
      in if name = dke then h1\<lparr>completed := completed h1 @ [(held h1, name)]\<rparr> else h1)"

text \<open>
  Modelled from the spec: the end of step 5 of the dispatch routine of the missing manager.
  A matched sequence pattern resets the history entirely; a matched single combo leaves the
  held keys as they are.
\<close>

fun consume :: "pattern \<Rightarrow> KeyHistory \<Rightarrow> KeyHistory" where
  "consume (Sequence cs) h = emptyHistory"
| "consume p h = h\<lparr>completed := []\<rparr>"

text \<open>
  Modelled from the spec: step 1 of the dispatch routine of the missing manager. A condition
  that cannot be called degrades to no dispatch, as every failure of the core does.
\<close>

definition ignoring :: "('e \<Rightarrow> bool) \<Rightarrow> 'e eventOptions \<Rightarrow> 'e \<Rightarrow> bool" where
  "ignoring dflt opts e =
     (case callValue dflt (optIgnoreEventsCondition opts) e of
        Inr b \<Rightarrow> b
      | Inl err \<Rightarrow> True)"

text \<open>
  Modelled from the spec: the dispatch routine of the missing manager,
  \<open>handleKeyDown\<close>, \<open>handleKeyPress\<close> and \<open>handleKeyUp\<close>, steps 1 to 7. An ignored event
  and an undefined focus tree id return false and change nothing. A registry miss logs a
  warning and returns true. Otherwise the history is updated, the bindings visible from the
  component are resolved, the handler of the first complete match is invoked with the event,
  and the result is false; with no match, a key up that leaves no key held clears the
  history.
\<close>

definition mgrDispatch ::
  "'e collaborators \<Rightarrow> KeyEventName \<Rightarrow> 'e \<Rightarrow> nat option \<Rightarrow> nat option \<Rightarrow> 'e eventOptions \<Rightarrow>
     ('e, 'f) managerState \<Rightarrow> bool \<times> ('e, 'f) managerState" where
  "mgrDispatch D name e t i opts m =
     (if ignoring (defaultIgnore D) opts e then (False, m)
      else (case t of
        None \<Rightarrow> (False, m)
      | Some tid \<Rightarrow>
          (case chainFrom (registry m tid) i of
             [] \<Rightarrow> (True, warn m)
           | r # rs \<Rightarrow>
               (let h1 = recordEvent (optDefaultKeyEvent (regOptions r)) name (keyOf D e)
                           (keyHistory m)
                in case firstComplete (matcher D) h1 name (resolveBindings (r # rs)) of
                     Some (a, q, f, origin) \<Rightarrow>
                       (False, m\<lparr>keyHistory := consume q h1, invoked := invoked m @ [(f, e)]\<rparr>)
                   | None \<Rightarrow>
                       (False, m\<lparr>keyHistory :=
                                   (if name = KeyUp \<and> held h1 = [] then emptyHistory else h1)\<rparr>)))))"

text \<open>
  Modelled from the spec: the missing manager as a whole, in the shape the component calls
  it.
\<close>

definition specManager ::
  "'e collaborators \<Rightarrow>
     (('e, 'f) managerState, 'e, (string \<times> pattern) list, (string \<times> 'f) list) manager" where
  "specManager D =
     \<lparr> handleFocus = mgrHandleFocus,
       updateComponent = mgrUpdateComponent,
       handleBlur = mgrHandleBlur,
       handleKeyDown = mgrDispatch D KeyDown,
       handleKeyPress = mgrDispatch D KeyPress,
       handleKeyUp = mgrDispatch D KeyUp \<rparr>"

text \<open>
  Modelled from the spec: one instance of the missing Sequence Matcher, for running the
  manager on concrete inputs. It knows single combos only: complete when exactly the
  required keys are down and the combo's event name is the current event's name.
\<close>

definition exactMatcher :: "KeyHistory \<Rightarrow> KeyEventName \<Rightarrow> pattern \<Rightarrow> MatchResult" where
  "exactMatcher h name p =
     (case p of
        Single (ks, n) \<Rightarrow>
          if list_all (\<lambda>k. k \<in> set (held h)) ks \<and> list_all (\<lambda>k. k \<in> set ks) (held h) \<and> n = name
          then Complete else NoMatch
      | _ \<Rightarrow> NoMatch)"

section \<open>Runs of key events\<close>

text \<open>
  Between two focus changes the host delivers key events to the component one after the
  other. \<open>runKeys\<close> is such a run; \<open>dispatchResult\<close> is what the manager answers to the
  next key event, and \<open>discards\<close> counts the answers \<open>true\<close> along a run. \<open>queue\<close> reads
  the array of focus tree ids, an unset one as empty.
\<close>

fun runKeys ::
  "('e jsval \<Rightarrow> ('m, 'e, 'k, 'h) manager) \<Rightarrow> 'e statics \<Rightarrow> (KeyEventName \<times> 'e) list \<Rightarrow>
     ('m, 'e, 'k, 'h, 'cb, 'a) world \<Rightarrow> ('m, 'e, 'k, 'h, 'cb, 'a) world" where
  "runKeys getInstance S [] w = w"
| "runKeys getInstance S ((name, e) # evs) w =
     runKeys getInstance S evs (hkHandleKey name getInstance S e w)"

definition dispatchResult ::
  "KeyEventName \<Rightarrow> ('e jsval \<Rightarrow> ('m, 'e, 'k, 'h) manager) \<Rightarrow> 'e statics \<Rightarrow> 'e \<Rightarrow>
     ('m, 'e, 'k, 'h, 'cb, 'a) world \<Rightarrow> bool" where
  "dispatchResult name getInstance S e w =
     fst (managerHandleKey name (getKeyEventManager getInstance S) e
            (getFocusTreeId (comp w)) (componentIndex (comp w)) (getEventOptions S) (mstate w))"

fun discards ::
  "('e jsval \<Rightarrow> ('m, 'e, 'k, 'h) manager) \<Rightarrow> 'e statics \<Rightarrow> (KeyEventName \<times> 'e) list \<Rightarrow>
     ('m, 'e, 'k, 'h, 'cb, 'a) world \<Rightarrow> nat" where
  "discards getInstance S [] w = 0"
| "discards getInstance S ((name, e) # evs) w =
     (if dispatchResult name getInstance S e w then 1 else 0)
       + discards getInstance S evs (hkHandleKey name getInstance S e w)"

definition queue :: "('k, 'h, 'cb) component \<Rightarrow> nat list" where
  "queue c = (case focusTreeIds c of None \<Rightarrow> [] | Some ids \<Rightarrow> ids)"

definition front :: "nat list \<Rightarrow> nat option" where
  "front ids = (case ids of [] \<Rightarrow> None | x # _ \<Rightarrow> Some x)"

section \<open>Concrete inputs\<close>

text \<open>
  Events are named by their key. Two components, an outer and an inner one, both bind the
  action \<open>save\<close> to Ctrl+S, with the handlers \<open>H1\<close> and \<open>H2\<close>.
\<close>

type_synonym demoWorld =
  "(script, string, (string \<times> pattern) list, (string \<times> string) list, string, string) world"

type_synonym demoManagerWorld =
  "((string, string) managerState, string, (string \<times> pattern) list, (string \<times> string) list,
    string, string) world"

definition ctrlS :: pattern where
  "ctrlS = Single ([''ctrl'', ''s''], KeyDown)"

definition outerProps :: "((string \<times> pattern) list, (string \<times> string) list, string) props" where
  "outerProps =
     \<lparr> keyMap = [(''save'', ctrlS)], handlers = [(''save'', ''H1'')],
       onFocus = Some ''outerOnFocus'', onBlur = Some ''outerOnBlur'' \<rparr>"

definition innerProps :: "((string \<times> pattern) list, (string \<times> string) list, string) props" where
  "innerProps =
     \<lparr> keyMap = [(''save'', ctrlS)], handlers = [(''save'', ''H2'')],
       onFocus = None, onBlur = None \<rparr>"

definition demoStatics :: "string statics" where
  "demoStatics = initialStatics"

definition demoFilter :: "string \<Rightarrow> bool" where
  "demoFilter e = (e = ''Tab'')"


definition filterObject :: "string jsobject" where
  "filterObject =
     \<lparr> ownEnumerable = [''ignoreEventsFilter'' \<mapsto> Fn (Closure demoFilter)],
       otherReadable = Map.empty \<rparr>"


definition filterStatics :: "string statics" where
  "filterStatics =
     demoStatics\<lparr>ignoreEventsCondition := Fn (Closure demoFilter),
                  configuration := configuration demoStatics ++ ownEnumerable filterObject\<rparr>"

definition demoCollaborators :: "string collaborators" where
  "demoCollaborators =
     \<lparr> defaultIgnore = (\<lambda>e. False), keyOf = (\<lambda>e. e), matcher = exactMatcher \<rparr>"

definition scriptedInstance :: "'e jsval \<Rightarrow> (script, 'e, 'k, 'h) manager" where
  "scriptedInstance logLevel = scriptedManager"

text \<open>
  Modelled from the spec: \<open>getInstance\<close> of the missing manager, the same singleton
  whatever the log level.
\<close>

definition specInstance ::
  "'e collaborators \<Rightarrow> 'e jsval \<Rightarrow>
     (('e, 'f) managerState, 'e, (string \<times> pattern) list, (string \<times> 'f) list) manager" where
  "specInstance D logLevel = specManager D"

definition startWorld ::
  "('k, 'h, 'cb) props \<Rightarrow> 'm \<Rightarrow> ('m, 'e, 'k, 'h, 'cb, 'a) world" where
  "startWorld p m = \<lparr> comp = newComponent p, mstate = m, trace = [] \<rparr>"

text \<open>
  A component gains focus and is given tree 7; it loses focus while the manager says to
  retain the id; it gains focus again and is given tree 8.
\<close>

definition refocusScript :: script where
  "refocusScript = \<lparr> focusAnswers = [(7, 0), (8, 1)], blurAnswers = [True], keyAnswers = [] \<rparr>"

definition focusedWorld :: demoWorld where
  "focusedWorld =
     hkHandleFocus scriptedInstance demoStatics [''focus''] (startWorld outerProps refocusScript)"

definition blurredWorld :: demoWorld where
  "blurredWorld = hkHandleBlur scriptedInstance demoStatics [''blur''] focusedWorld"

definition refocusedWorld :: demoWorld where
  "refocusedWorld = hkHandleFocus scriptedInstance demoStatics [''focus''] blurredWorld"

text \<open>
  The same on the manager of the specification, with two components that share it. The
  outer component gains focus, then the inner one, in the same tree; the outer one loses
  focus while the inner one is still registered, then the inner one loses focus and the tree
  leaves the stack; the outer one gains focus again, in a new tree.
\<close>

definition outerFocused :: demoManagerWorld where
  "outerFocused =
     hkHandleFocus (specInstance demoCollaborators) demoStatics [''focus'']
       (startWorld outerProps initialManagerState)"

definition innerFocused :: demoManagerWorld where
  "innerFocused =
     hkHandleFocus (specInstance demoCollaborators) demoStatics [''focus'']
       (startWorld innerProps (mstate outerFocused))"

definition outerBlurred :: demoManagerWorld where
  "outerBlurred =
     hkHandleBlur (specInstance demoCollaborators) demoStatics [''blur'']
       (outerFocused\<lparr>mstate := mstate innerFocused\<rparr>)"

definition innerBlurred :: demoManagerWorld where
  "innerBlurred =
     hkHandleBlur (specInstance demoCollaborators) demoStatics [''blur'']
       (innerFocused\<lparr>mstate := mstate outerBlurred\<rparr>)"

definition outerRefocused :: demoManagerWorld where
  "outerRefocused =
     hkHandleFocus (specInstance demoCollaborators) demoStatics [''focus'']
       (outerBlurred\<lparr>mstate := mstate innerBlurred\<rparr>)"

text \<open>
  The manager of the specification after the outer and then the inner component gained
  focus and the Ctrl key went down on the inner one.
\<close>

definition nestedManagerState :: "(string, string) managerState" where
  "nestedManagerState =
     snd (mgrDispatch demoCollaborators KeyDown ''ctrl'' (Some 0) (Some 1)
            (getEventOptions demoStatics)
            (snd (mgrHandleFocus (keyMap innerProps) (handlers innerProps)
                    (getFocusOptions demoStatics)
                    (snd (mgrHandleFocus (keyMap outerProps) (handlers outerProps)
                            (getFocusOptions demoStatics) initialManagerState)))))"

section \<open>Facts about the component\<close>

lemmas demo_defs = demoStatics_def initialStatics_def outerProps_def innerProps_def ctrlS_def
  demoCollaborators_def scriptedInstance_def specInstance_def startWorld_def newComponent_def
  refocusScript_def getFocusOptions_def getEventOptions_def getKeyEventManager_def getProp_def
  demoFilter_def

lemmas hk_defs = hkHandleFocus_def hkHandleBlur_def hkHandleKeyDown_def hkHandleKeyPress_def
  hkHandleKeyUp_def hkHandleKey.simps callProp_def
  focusTreeIdsPush_def focusTreeIdsShift_def getFocusTreeId_def queue_def front_def
  dispatchResult_def componentWillReceiveProps_def Let_def

lemmas scripted_defs = scriptedManager_def scriptedKey_def focusedWorld_def blurredWorld_def
  refocusedWorld_def

lemmas mgr_defs = mgrHandleFocus_def mgrDispatch_def mgrHandleBlur_def initialManagerState_def
  emptyHistory_def ignoring_def chainFrom_def resolveBindings_def keyMapEntries_def
  firstComplete_def recordEvent_def exactMatcher_def warn_def List.map_filter_def
  specManager_def nestedManagerState_def

lemma key_comp:
  "comp (hkHandleKey name gi S e w) =
     (if dispatchResult name gi S e w then focusTreeIdsShift (comp w) else comp w)"
  by (cases name)
     (simp_all add: hkHandleKey.simps hkHandleKeyDown_def hkHandleKeyPress_def
        hkHandleKeyUp_def dispatchResult_def Let_def split: prod.splits)

lemma key_trace:
  "trace (hkHandleKey name gi S e w) =
     trace w @ [MgrHandleKey name e (getFocusTreeId (comp w)) (componentIndex (comp w))
                  (getEventOptions S)]"
  by (cases name)
     (simp_all add: hkHandleKey.simps hkHandleKeyDown_def hkHandleKeyPress_def
        hkHandleKeyUp_def Let_def split: prod.splits)

lemma key_mstate:
  "mstate (hkHandleKey name gi S e w) =
     snd (managerHandleKey name (getKeyEventManager gi S) e
            (getFocusTreeId (comp w)) (componentIndex (comp w)) (getEventOptions S) (mstate w))"
  by (cases name)
     (simp_all add: hkHandleKey.simps hkHandleKeyDown_def hkHandleKeyPress_def
        hkHandleKeyUp_def Let_def split: prod.splits)

lemma shift_index: "componentIndex (focusTreeIdsShift c) = componentIndex c"
  by (simp add: focusTreeIdsShift_def split: option.splits)

lemma shift_ids: "focusTreeIds (focusTreeIdsShift c) = map_option (drop 1) (focusTreeIds c)"
  by (simp add: focusTreeIdsShift_def split: option.splits)

lemma shift_queue: "queue (focusTreeIdsShift c) = drop 1 (queue c)"
  by (simp add: focusTreeIdsShift_def queue_def split: option.splits)

lemma drop1_neq: "xs \<noteq> [] \<Longrightarrow> drop 1 xs \<noteq> xs"
  by (cases xs) auto

lemma getFocusTreeId_front: "getFocusTreeId c = front (queue c)"
  by (simp add: getFocusTreeId_def front_def queue_def split: option.splits list.splits)

lemma runKeys_index: "componentIndex (comp (runKeys gi S evs w)) = componentIndex (comp w)"
  by (induction evs arbitrary: w) (auto simp: key_comp shift_index)

lemma runKeys_ids:
  "focusTreeIds (comp (runKeys gi S evs w)) =
     map_option (drop (discards gi S evs w)) (focusTreeIds (comp w))"
proof (induction evs arbitrary: w)
  case Nil
  show ?case by (cases "focusTreeIds (comp w)") simp_all
next
  case (Cons ev evs)
  obtain name e where ev: "ev = (name, e)" by (cases ev)
  show ?case
    by (cases "focusTreeIds (comp w)") (simp_all add: ev Cons.IH key_comp shift_ids)
qed

lemma runKeys_queue:
  "queue (comp (runKeys gi S evs w)) = drop (discards gi S evs w) (queue (comp w))"
  by (simp add: queue_def runKeys_ids split: option.splits)

lemma focus_comp:
  assumes "handleFocus (getKeyEventManager gi S) (keyMap (cprops (comp w)))
             (handlers (cprops (comp w))) (getFocusOptions S) (mstate w) = ((t, i), m1)"
  shows "comp (hkHandleFocus gi S args w) =
           (comp w)\<lparr>focusTreeIds := Some (queue (comp w) @ [t]), componentIndex := Some i,
                     focused := Some True\<rparr>"
  using assms
  by (simp add: hkHandleFocus_def callProp_def Let_def focusTreeIdsPush_def queue_def
        split: option.splits)

lemma blur_comp:
  assumes "handleBlur (getKeyEventManager gi S) (getFocusTreeId (comp w))
             (componentIndex (comp w)) (mstate w) = (retain, m1)"
  shows "comp (hkHandleBlur gi S args w) =
           (if retain then comp w else focusTreeIdsShift (comp w))\<lparr>focused := Some False\<rparr>"
  using assms
  by (simp add: hkHandleBlur_def callProp_def Let_def split: option.splits)

lemma focus_trace:
  "trace (hkHandleFocus gi S args w) =
     trace w @ (case onFocus (cprops (comp w)) of None \<Rightarrow> [] | Some cb \<Rightarrow> [UserCallback cb args])
       @ [MgrHandleFocus (keyMap (cprops (comp w))) (handlers (cprops (comp w)))
            (getFocusOptions S)]"
  by (simp add: hkHandleFocus_def callProp_def Let_def split: option.splits prod.splits)

lemma blur_trace:
  "trace (hkHandleBlur gi S args w) =
     trace w @ (case onBlur (cprops (comp w)) of None \<Rightarrow> [] | Some cb \<Rightarrow> [UserCallback cb args])
       @ [MgrHandleBlur (getFocusTreeId (comp w)) (componentIndex (comp w))]"
  by (simp add: hkHandleBlur_def callProp_def Let_def split: option.splits prod.splits)

lemma focusedWorld_comp:
  "focusTreeIds (comp focusedWorld) = Some [7] \<and> componentIndex (comp focusedWorld) = Some 0
     \<and> focused (comp focusedWorld) = Some True \<and> cprops (comp focusedWorld) = outerProps
     \<and> mstate focusedWorld = \<lparr> focusAnswers = [(8, 1)], blurAnswers = [True], keyAnswers = [] \<rparr>"
  by (simp add: scripted_defs demo_defs hk_defs)

lemma blurredWorld_comp:
  "focusTreeIds (comp blurredWorld) = Some [7] \<and> componentIndex (comp blurredWorld) = Some 0
     \<and> focused (comp blurredWorld) = Some False \<and> cprops (comp blurredWorld) = outerProps
     \<and> mstate blurredWorld = \<lparr> focusAnswers = [(8, 1)], blurAnswers = [], keyAnswers = [] \<rparr>"
  by (simp add: scripted_defs demo_defs hk_defs)

lemma refocusedWorld_comp:
  "focusTreeIds (comp refocusedWorld) = Some [7, 8]
     \<and> componentIndex (comp refocusedWorld) = Some 1
     \<and> focused (comp refocusedWorld) = Some True \<and> cprops (comp refocusedWorld) = outerProps
     \<and> mstate refocusedWorld = \<lparr> focusAnswers = [], blurAnswers = [], keyAnswers = [] \<rparr>"
  by (simp add: scripted_defs demo_defs hk_defs)

section \<open>The static side\<close>

text \<open>
  C10. For every value \<open>f\<close> and every event \<open>e\<close>: after \<open>setIgnoreEventsCondition(f)\<close>
  followed by \<open>resetIgnoreEventsCondition()\<close>, the call \<open>HotKeys.ignoreEventsCondition(e)\<close>
  returns what the imported default predicate returns on \<open>e\<close>, which is what the call
  returns on the class as declared. The property holds the imported function afterwards, not
  the static method it held at first; the two behave alike.
\<close>

theorem set_reset_roundtrip:
  "callIgnoreEventsCondition dflt (resetIgnoreEventsCondition (setIgnoreEventsCondition f S)) e
     = Inr (dflt e)
   \<and> callIgnoreEventsCondition dflt (resetIgnoreEventsCondition (setIgnoreEventsCondition f S)) e
     = callIgnoreEventsCondition dflt initialStatics e
   \<and> ignoreEventsCondition (resetIgnoreEventsCondition (setIgnoreEventsCondition f S))
     = Fn ImportedFn"
  by (simp add: callIgnoreEventsCondition_def resetIgnoreEventsCondition_def
        setIgnoreEventsCondition_def initialStatics_def)

theorem set_reset_roundtrip_witness:
  "callIgnoreEventsCondition (\<lambda>e. e = ''input'')
     (resetIgnoreEventsCondition (setIgnoreEventsCondition (Fn (Closure demoFilter)) demoStatics))
     ''Tab'' = Inr False
   \<and> callIgnoreEventsCondition (\<lambda>e. e = ''input'')
       (setIgnoreEventsCondition (Fn (Closure demoFilter)) demoStatics) ''Tab'' = Inr True"
  using set_reset_roundtrip [of "\<lambda>e. e = ''input''" "Fn (Closure demoFilter)" demoStatics "''Tab''"]
  by (simp add: callIgnoreEventsCondition_def setIgnoreEventsCondition_def demoFilter_def)




text \<open>
  C7. The class as declared has the log level \<open>'warn'\<close>. When \<open>configure\<close> is called
  with an object whose \<open>ignoreEventsFilter\<close> is a function, the call returns, that function
  is the \<open>ignoreEventsCondition\<close> afterwards, and from then on every key event, of any of
  the three kinds and in any state of the component, is dispatched to the manager with an
  options object that holds this function.
\<close>

theorem configure_installs_filter:
  assumes "readProp obj ''ignoreEventsFilter'' = Fn f"
  shows "getProp (configuration (initialStatics :: 'e statics)) ''logLevel'' = Str ''warn''
    \<and> (\<exists>S'. configure (ArgObject obj) (S :: 'e statics) = Inr S'
        \<and> ignoreEventsCondition S' = Fn f
        \<and> getEventOptions S' = \<lparr> optIgnoreEventsCondition = Fn f \<rparr>
        \<and> trace (hkHandleKey name gi S' e w) =
            trace w @ [MgrHandleKey name e (getFocusTreeId (comp w)) (componentIndex (comp w))
                         \<lparr> optIgnoreEventsCondition = Fn f \<rparr>]
        \<and> mstate (hkHandleKey name gi S' e w) =
            snd (managerHandleKey name (getKeyEventManager gi S') e
                   (getFocusTreeId (comp w)) (componentIndex (comp w))
                   \<lparr> optIgnoreEventsCondition = Fn f \<rparr> (mstate w)))"
proof -
  let ?S' = "S\<lparr>ignoreEventsCondition := Fn f,
               configuration := configuration S ++ ownEnumerable obj\<rparr>"
  have ret: "configure (ArgObject obj) S = Inr ?S'"
    using assms by (simp add: configure_def Let_def setIgnoreEventsCondition_def)
  have cond: "ignoreEventsCondition ?S' = Fn f"
    by simp
  then have opts: "getEventOptions ?S' = \<lparr> optIgnoreEventsCondition = Fn f \<rparr>"
    by (simp add: getEventOptions_def)
  have dflt: "getProp (configuration (initialStatics :: 'e statics)) ''logLevel'' = Str ''warn''"
    by (simp add: initialStatics_def getProp_def)
  have tr: "trace (hkHandleKey name gi ?S' e w) =
              trace w @ [MgrHandleKey name e (getFocusTreeId (comp w)) (componentIndex (comp w))
                           \<lparr> optIgnoreEventsCondition = Fn f \<rparr>]"
    using key_trace [of name gi ?S' e w] by (simp only: opts)
  have ms: "mstate (hkHandleKey name gi ?S' e w) =
              snd (managerHandleKey name (getKeyEventManager gi ?S') e
                     (getFocusTreeId (comp w)) (componentIndex (comp w))
                     \<lparr> optIgnoreEventsCondition = Fn f \<rparr> (mstate w))"
    using key_mstate [of name gi ?S' e w] by (simp only: opts)
  show ?thesis
    using ret cond opts dflt tr ms by blast
qed

theorem configure_installs_filter_witness:
  "configure (ArgObject filterObject) demoStatics = Inr filterStatics
   \<and> trace (hkHandleKey KeyPress scriptedInstance filterStatics ''Tab'' refocusedWorld) =
       trace refocusedWorld @
         [MgrHandleKey KeyPress ''Tab'' (Some 7) (Some 1)
            \<lparr> optIgnoreEventsCondition = Fn (Closure demoFilter) \<rparr>]"
proof -
  have h: "readProp filterObject ''ignoreEventsFilter'' = Fn (Closure demoFilter)"
    by (simp add: readProp_def filterObject_def)
  have c: "configure (ArgObject filterObject) demoStatics = Inr filterStatics"
    by (simp add: configure_def Let_def setIgnoreEventsCondition_def h filterStatics_def)
  from configure_installs_filter [where obj = filterObject and f = "Closure demoFilter"
      and S = demoStatics and name = KeyPress and gi = scriptedInstance and e = "''Tab''"
      and w = refocusedWorld, OF h]
  obtain S' where S': "configure (ArgObject filterObject) demoStatics = Inr S'"
    and tr: "trace (hkHandleKey KeyPress scriptedInstance S' ''Tab'' refocusedWorld) =
       trace refocusedWorld @
         [MgrHandleKey KeyPress ''Tab'' (getFocusTreeId (comp refocusedWorld))
            (componentIndex (comp refocusedWorld))
            \<lparr> optIgnoreEventsCondition = Fn (Closure demoFilter) \<rparr>]"
    by blast
  from S' c have "S' = filterStatics" by simp
  with tr c show ?thesis
    by (simp add: refocusedWorld_comp getFocusTreeId_def)
qed

section \<open>Focus, blur and key events\<close>

text \<open>
  C2. On every blur of a component, the front entry of its array of focus tree ids is
  shifted off if and only if the manager's \<open>handleBlur\<close> returned false; when it returned
  true the array is left as it is; in both cases the focused flag is false afterwards.
  Shifting an unset or empty array changes nothing, so the last part states the
  equivalence for an array that has an entry.
\<close>

theorem blur_shifts_iff_not_retained:
  assumes "handleBlur (getKeyEventManager gi S) (getFocusTreeId (comp w))
             (componentIndex (comp w)) (mstate w) = (retain, m1)"
  shows "comp (hkHandleBlur gi S args w) =
           (if retain then comp w else focusTreeIdsShift (comp w))\<lparr>focused := Some False\<rparr>
    \<and> focused (comp (hkHandleBlur gi S args w)) = Some False
    \<and> focusTreeIds (comp (hkHandleBlur gi S args w)) =
        (if retain then focusTreeIds (comp w) else map_option (drop 1) (focusTreeIds (comp w)))
    \<and> (queue (comp w) \<noteq> [] \<longrightarrow>
         (queue (comp (hkHandleBlur gi S args w)) = drop 1 (queue (comp w))) = (\<not> retain))"
proof -
  have c: "comp (hkHandleBlur gi S args w) =
             (if retain then comp w else focusTreeIdsShift (comp w))\<lparr>focused := Some False\<rparr>"
    by (rule blur_comp [OF assms])
  have q: "queue (comp (hkHandleBlur gi S args w)) =
             (if retain then queue (comp w) else drop 1 (queue (comp w)))"
    by (simp add: c queue_def focusTreeIdsShift_def split: option.splits)
  have "queue (comp w) \<noteq> [] \<longrightarrow>
          (queue (comp (hkHandleBlur gi S args w)) = drop 1 (queue (comp w))) = (\<not> retain)"
    using drop1_neq [of "queue (comp w)"] by (auto simp: q)
  then show ?thesis
    by (simp add: c shift_ids)
qed

theorem blur_shifts_iff_not_retained_witness:
  "focusTreeIds (comp (hkHandleBlur scriptedInstance demoStatics [''blur''] focusedWorld))
     = Some [7]
   \<and> focusTreeIds (comp (hkHandleBlur scriptedInstance demoStatics [''blur''] refocusedWorld))
     = Some [8]
   \<and> focused (comp (hkHandleBlur scriptedInstance demoStatics [''blur''] refocusedWorld))
     = Some False"
proof -
  have h1: "handleBlur (getKeyEventManager scriptedInstance demoStatics)
              (getFocusTreeId (comp focusedWorld)) (componentIndex (comp focusedWorld))
              (mstate focusedWorld)
            = (True, \<lparr> focusAnswers = [(8, 1)], blurAnswers = [], keyAnswers = [] \<rparr>)"
    by (simp add: focusedWorld_comp getKeyEventManager_def scriptedInstance_def
          scriptedManager_def)
  have h2: "handleBlur (getKeyEventManager scriptedInstance demoStatics)
              (getFocusTreeId (comp refocusedWorld)) (componentIndex (comp refocusedWorld))
              (mstate refocusedWorld)
            = (False, \<lparr> focusAnswers = [], blurAnswers = [], keyAnswers = [] \<rparr>)"
    by (simp add: refocusedWorld_comp getKeyEventManager_def scriptedInstance_def
          scriptedManager_def)
  show ?thesis
    using blur_shifts_iff_not_retained [OF h1, of "[''blur'']"]
      blur_shifts_iff_not_retained [OF h2, of "[''blur'']"]
    by (simp add: focusedWorld_comp refocusedWorld_comp shift_ids)
qed

text \<open>
  C3. For each of the three key handlers: the front entry of the component's array of focus
  tree ids is shifted off if and only if the manager's dispatch call (\<open>handleKeyDown\<close>,
  \<open>handleKeyPress\<close>, \<open>handleKeyUp\<close>) returned true; when it returned false the component is
  unchanged, its array and its component index included. The component index is unchanged
  in either case.
\<close>

theorem key_handlers_shift_iff_discard:
  "comp (hkHandleKey name gi S e w) =
     (if dispatchResult name gi S e w then focusTreeIdsShift (comp w) else comp w)
   \<and> componentIndex (comp (hkHandleKey name gi S e w)) = componentIndex (comp w)
   \<and> focusTreeIds (comp (hkHandleKey name gi S e w)) =
       (if dispatchResult name gi S e w then map_option (drop 1) (focusTreeIds (comp w))
        else focusTreeIds (comp w))
   \<and> (queue (comp w) \<noteq> [] \<longrightarrow>
        (queue (comp (hkHandleKey name gi S e w)) = drop 1 (queue (comp w)))
          = dispatchResult name gi S e w)
   \<and> dispatchResult KeyDown gi S e w =
       fst (handleKeyDown (getKeyEventManager gi S) e (getFocusTreeId (comp w))
              (componentIndex (comp w)) (getEventOptions S) (mstate w))
   \<and> dispatchResult KeyPress gi S e w =
       fst (handleKeyPress (getKeyEventManager gi S) e (getFocusTreeId (comp w))
              (componentIndex (comp w)) (getEventOptions S) (mstate w))
   \<and> dispatchResult KeyUp gi S e w =
       fst (handleKeyUp (getKeyEventManager gi S) e (getFocusTreeId (comp w))
              (componentIndex (comp w)) (getEventOptions S) (mstate w))
   \<and> hkHandleKeyDown gi S e w = hkHandleKey KeyDown gi S e w
   \<and> hkHandleKeyPress gi S e w = hkHandleKey KeyPress gi S e w
   \<and> hkHandleKeyUp gi S e w = hkHandleKey KeyUp gi S e w"
proof -
  have q: "queue (comp (hkHandleKey name gi S e w)) =
             (if dispatchResult name gi S e w then drop 1 (queue (comp w)) else queue (comp w))"
    by (simp add: key_comp shift_queue)
  have iff: "queue (comp w) \<noteq> [] \<longrightarrow>
          (queue (comp (hkHandleKey name gi S e w)) = drop 1 (queue (comp w)))
            = dispatchResult name gi S e w"
    using drop1_neq [of "queue (comp w)"] by (auto simp: q)
  have names: "hkHandleKeyDown gi S e w = hkHandleKey KeyDown gi S e w
      \<and> hkHandleKeyPress gi S e w = hkHandleKey KeyPress gi S e w
      \<and> hkHandleKeyUp gi S e w = hkHandleKey KeyUp gi S e w"
    by (simp add: hkHandleKey.simps)
  show ?thesis
    using iff names by (simp add: key_comp shift_index shift_ids dispatchResult_def)
qed

theorem key_handlers_shift_iff_discard_witness:
  "focusTreeIds (comp (hkHandleKey KeyUp scriptedInstance demoStatics ''s''
      (refocusedWorld\<lparr>mstate := \<lparr> focusAnswers = [], blurAnswers = [], keyAnswers = [True] \<rparr>\<rparr>)))
     = Some [8]
   \<and> focusTreeIds (comp (hkHandleKey KeyUp scriptedInstance demoStatics ''s'' refocusedWorld))
     = Some [7, 8]"
  using key_handlers_shift_iff_discard [of KeyUp scriptedInstance demoStatics "''s''"
      "refocusedWorld\<lparr>mstate := \<lparr> focusAnswers = [], blurAnswers = [], keyAnswers = [True] \<rparr>\<rparr>"]
    key_handlers_shift_iff_discard [of KeyUp scriptedInstance demoStatics "''s''" refocusedWorld]
  by (simp add: refocusedWorld_comp dispatchResult_def getKeyEventManager_def
        scriptedInstance_def scriptedManager_def scriptedKey_def shift_ids)

text \<open>
  C9. On every focus event of a component with an \<open>onFocus\<close> prop, that callback is called
  first, with the arguments of the event as they came, and the manager's \<open>handleFocus\<close> is
  called after it; without the prop only the manager is called. The same holds for blur,
  \<open>onBlur\<close> and \<open>handleBlur\<close>. The manager is really called: its state afterwards is
  the one its method returns, and the component takes what the method answers.
\<close>

theorem callbacks_before_manager:
  "trace (hkHandleFocus gi S args w) =
     trace w
       @ (case onFocus (cprops (comp w)) of None \<Rightarrow> [] | Some cb \<Rightarrow> [UserCallback cb args])
       @ [MgrHandleFocus (keyMap (cprops (comp w))) (handlers (cprops (comp w)))
            (getFocusOptions S)]
   \<and> mstate (hkHandleFocus gi S args w) =
       snd (handleFocus (getKeyEventManager gi S) (keyMap (cprops (comp w)))
              (handlers (cprops (comp w))) (getFocusOptions S) (mstate w))
   \<and> comp (hkHandleFocus gi S args w) =
       (focusTreeIdsPush
          (fst (fst (handleFocus (getKeyEventManager gi S) (keyMap (cprops (comp w)))
                       (handlers (cprops (comp w))) (getFocusOptions S) (mstate w))))
          ((comp w)\<lparr>componentIndex :=
              Some (snd (fst (handleFocus (getKeyEventManager gi S) (keyMap (cprops (comp w)))
                                (handlers (cprops (comp w))) (getFocusOptions S)
                                (mstate w))))\<rparr>))
         \<lparr>focused := Some True\<rparr>
   \<and> trace (hkHandleBlur gi S args w) =
     trace w
       @ (case onBlur (cprops (comp w)) of None \<Rightarrow> [] | Some cb \<Rightarrow> [UserCallback cb args])
       @ [MgrHandleBlur (getFocusTreeId (comp w)) (componentIndex (comp w))]
   \<and> mstate (hkHandleBlur gi S args w) =
       snd (handleBlur (getKeyEventManager gi S) (getFocusTreeId (comp w))
              (componentIndex (comp w)) (mstate w))
   \<and> comp (hkHandleBlur gi S args w) =
       (if fst (handleBlur (getKeyEventManager gi S) (getFocusTreeId (comp w))
                  (componentIndex (comp w)) (mstate w))
        then comp w else focusTreeIdsShift (comp w))\<lparr>focused := Some False\<rparr>"
proof -
  have fm: "mstate (hkHandleFocus gi S args w) =
       snd (handleFocus (getKeyEventManager gi S) (keyMap (cprops (comp w)))
              (handlers (cprops (comp w))) (getFocusOptions S) (mstate w))"
    by (simp add: hkHandleFocus_def callProp_def Let_def split: option.splits prod.splits)
  have fc: "comp (hkHandleFocus gi S args w) =
       (focusTreeIdsPush
          (fst (fst (handleFocus (getKeyEventManager gi S) (keyMap (cprops (comp w)))
                       (handlers (cprops (comp w))) (getFocusOptions S) (mstate w))))
          ((comp w)\<lparr>componentIndex :=
              Some (snd (fst (handleFocus (getKeyEventManager gi S) (keyMap (cprops (comp w)))
                                (handlers (cprops (comp w))) (getFocusOptions S)
                                (mstate w))))\<rparr>))
         \<lparr>focused := Some True\<rparr>"
    by (simp add: hkHandleFocus_def callProp_def Let_def split: option.splits prod.splits)
  have bm: "mstate (hkHandleBlur gi S args w) =
       snd (handleBlur (getKeyEventManager gi S) (getFocusTreeId (comp w))
              (componentIndex (comp w)) (mstate w))"
    by (simp add: hkHandleBlur_def callProp_def Let_def split: option.splits prod.splits)
  have bc: "comp (hkHandleBlur gi S args w) =
       (if fst (handleBlur (getKeyEventManager gi S) (getFocusTreeId (comp w))
                  (componentIndex (comp w)) (mstate w))
        then comp w else focusTreeIdsShift (comp w))\<lparr>focused := Some False\<rparr>"
    by (simp add: hkHandleBlur_def callProp_def Let_def split: option.splits prod.splits)
  show ?thesis
    using focus_trace [of gi S args w] blur_trace [of gi S args w] fm fc bm bc
    by (simp only: simp_thms)
qed

theorem callbacks_before_manager_witness:
  "trace (hkHandleFocus scriptedInstance demoStatics [''focus'']
            (startWorld outerProps refocusScript) :: demoWorld) =
     [UserCallback ''outerOnFocus'' [''focus''],
      MgrHandleFocus [(''save'', ctrlS)] [(''save'', ''H1'')] \<lparr> optDefaultKeyEvent = KeyPress \<rparr>]
   \<and> mstate (hkHandleFocus scriptedInstance demoStatics [''focus'']
               (startWorld outerProps refocusScript) :: demoWorld) =
     \<lparr> focusAnswers = [(8, 1)], blurAnswers = [True], keyAnswers = [] \<rparr>
   \<and> trace (hkHandleBlur scriptedInstance demoStatics [''blur'']
              (startWorld innerProps refocusScript) :: demoWorld) =
     [MgrHandleBlur None None]
   \<and> mstate (hkHandleBlur scriptedInstance demoStatics [''blur'']
               (startWorld innerProps refocusScript) :: demoWorld) =
     \<lparr> focusAnswers = [(7, 0), (8, 1)], blurAnswers = [], keyAnswers = [] \<rparr>"
proof -
  note f = callbacks_before_manager [of scriptedInstance demoStatics "[''focus'']"
      "startWorld outerProps refocusScript :: demoWorld"]
  note b = callbacks_before_manager [of scriptedInstance demoStatics "[''blur'']"
      "startWorld innerProps refocusScript :: demoWorld"]
  show ?thesis
    using f [THEN conjunct1] f [THEN conjunct2, THEN conjunct1]
      b [THEN conjunct2, THEN conjunct2, THEN conjunct2, THEN conjunct1]
      b [THEN conjunct2, THEN conjunct2, THEN conjunct2, THEN conjunct2, THEN conjunct1]
    by (simp add: demo_defs getFocusTreeId_def scriptedManager_def)
qed

text \<open>
  C6. When a component receives new props: if it is focused, the manager's
  \<open>updateComponent\<close> is called once, with the front of the component's array of focus tree
  ids, its component index, and the key map and handlers of the new props, and nothing else
  is called and the component keeps its state; if it is not focused, nothing at all
  happens. A component is focused after a focus event and not focused after a blur or
  before its first focus.
\<close>

theorem receive_props_updates_iff_focused:
  "componentWillReceiveProps gi S nextProps w =
     (if focused (comp w) = Some True then
        w\<lparr>mstate :=
             updateComponent (getKeyEventManager gi S) (getFocusTreeId (comp w))
               (componentIndex (comp w)) (keyMap nextProps) (handlers nextProps)
               (getFocusOptions S) (mstate w),
           trace :=
             trace w @ [MgrUpdateComponent (getFocusTreeId (comp w)) (componentIndex (comp w))
                          (keyMap nextProps) (handlers nextProps) (getFocusOptions S)]\<rparr>
      else w)
   \<and> comp (componentWillReceiveProps gi S nextProps w) = comp w
   \<and> focused (comp (hkHandleFocus gi S args w)) = Some True
   \<and> componentWillReceiveProps gi S nextProps (hkHandleBlur gi S args w)
       = hkHandleBlur gi S args w
   \<and> componentWillReceiveProps gi S nextProps (startWorld p m) = startWorld p m"
  by (simp add: componentWillReceiveProps_def Let_def hkHandleFocus_def hkHandleBlur_def
        startWorld_def newComponent_def split: prod.splits)

theorem receive_props_updates_iff_focused_witness:
  "trace (componentWillReceiveProps scriptedInstance demoStatics innerProps refocusedWorld) =
     trace refocusedWorld @
       [MgrUpdateComponent (Some 7) (Some 1) [(''save'', ctrlS)] [(''save'', ''H2'')]
          \<lparr> optDefaultKeyEvent = KeyPress \<rparr>]
   \<and> componentWillReceiveProps scriptedInstance demoStatics innerProps blurredWorld
       = blurredWorld"
  using receive_props_updates_iff_focused [of scriptedInstance demoStatics innerProps
      refocusedWorld, THEN conjunct1]
    receive_props_updates_iff_focused [of scriptedInstance demoStatics innerProps blurredWorld,
      THEN conjunct1]
  by (simp add: refocusedWorld_comp blurredWorld_comp getFocusTreeId_def demo_defs)

text \<open>
  C1, as stated, fails: the array of focus tree ids is read at its front and extended at
  its back. A component is given tree 7 on focus, keeps the id on blur because the manager
  says to retain it, and is given tree 8 and component index 1 on the next focus; its array
  is then \<open>[7, 8]\<close>, and the key event that follows is reported with tree 7, not with the
  tree 8 that the most recent \<open>handleFocus\<close> returned.
\<close>

theorem refocus_reports_oldest_id:
  "fst (handleFocus (getKeyEventManager scriptedInstance demoStatics)
          (keyMap (cprops (comp blurredWorld))) (handlers (cprops (comp blurredWorld)))
          (getFocusOptions demoStatics) (mstate blurredWorld)) = (8, 1)
   \<and> queue (comp blurredWorld) = [7]
   \<and> queue (comp (hkHandleFocus scriptedInstance demoStatics [''focus''] blurredWorld)) = [7, 8]
   \<and> trace (hkHandleKey KeyDown scriptedInstance demoStatics ''s''
              (hkHandleFocus scriptedInstance demoStatics [''focus''] blurredWorld)) =
       trace (hkHandleFocus scriptedInstance demoStatics [''focus''] blurredWorld)
         @ [MgrHandleKey KeyDown ''s'' (Some 7) (Some 1) (getEventOptions demoStatics)]
   \<and> MgrHandleKey KeyDown ''s'' (Some 7) (Some 1) (getEventOptions demoStatics)
       \<noteq> (MgrHandleKey KeyDown ''s'' (Some 8) (Some 1) (getEventOptions demoStatics)
            :: (string, (string \<times> pattern) list, (string \<times> string) list, string, string) call)"
proof -
  have r: "hkHandleFocus scriptedInstance demoStatics [''focus''] blurredWorld = refocusedWorld"
    by (simp add: refocusedWorld_def)
  show ?thesis
    unfolding r
    by (simp add: key_trace refocusedWorld_comp blurredWorld_comp queue_def getFocusTreeId_def
          getKeyEventManager_def scriptedInstance_def scriptedManager_def)
qed

text \<open>
  C1, amended. After a focus event in which \<open>handleFocus\<close> returned the tree \<open>t\<close> and the
  index \<open>i\<close>, every key event that follows, up to the next focus or blur, is reported to
  the manager with the component index \<open>i\<close> and with the id at the front of the component's
  array of focus tree ids. That array is the one the component had before the focus, with
  \<open>t\<close> added at the back, less one entry at the front for every earlier dispatch of the run
  that returned true. So, while nothing has been discarded, the id reported is \<open>t\<close> if the
  array was unset or empty when focus was gained, and otherwise the oldest id still kept.
\<close>

theorem keys_report_front_of_queue:
  assumes "handleFocus (getKeyEventManager gi S) (keyMap (cprops (comp w)))
             (handlers (cprops (comp w))) (getFocusOptions S) (mstate w) = ((t, i), m1)"
  shows "trace (hkHandleKey name gi S e (runKeys gi S evs (hkHandleFocus gi S args w))) =
           trace (runKeys gi S evs (hkHandleFocus gi S args w)) @
             [MgrHandleKey name e
                (front (drop (discards gi S evs (hkHandleFocus gi S args w))
                          (queue (comp w) @ [t])))
                (Some i) (getEventOptions S)]
    \<and> (discards gi S evs (hkHandleFocus gi S args w) = 0 \<longrightarrow>
         front (drop (discards gi S evs (hkHandleFocus gi S args w)) (queue (comp w) @ [t])) =
           (case queue (comp w) of [] \<Rightarrow> Some t | x # xs \<Rightarrow> Some x))"
proof -
  let ?w1 = "hkHandleFocus gi S args w"
  have c1: "comp ?w1 =
              (comp w)\<lparr>focusTreeIds := Some (queue (comp w) @ [t]), componentIndex := Some i,
                        focused := Some True\<rparr>"
    by (rule focus_comp [OF assms])
  have q1: "queue (comp ?w1) = queue (comp w) @ [t]"
    by (simp add: c1 queue_def)
  have qn: "queue (comp (runKeys gi S evs ?w1)) =
              drop (discards gi S evs ?w1) (queue (comp w) @ [t])"
    by (simp add: runKeys_queue q1)
  have ix: "componentIndex (comp (runKeys gi S evs ?w1)) = Some i"
    by (simp add: runKeys_index c1)
  have reported: "trace (hkHandleKey name gi S e (runKeys gi S evs ?w1)) =
           trace (runKeys gi S evs ?w1) @
             [MgrHandleKey name e (front (drop (discards gi S evs ?w1) (queue (comp w) @ [t])))
                (Some i) (getEventOptions S)]"
    by (simp add: key_trace getFocusTreeId_front qn ix)
  have fresh: "discards gi S evs ?w1 = 0 \<longrightarrow>
         front (drop (discards gi S evs ?w1) (queue (comp w) @ [t])) =
           (case queue (comp w) of [] \<Rightarrow> Some t | x # xs \<Rightarrow> Some x)"
    by (simp add: front_def split: list.splits)
  show ?thesis
    using reported fresh by blast
qed

theorem keys_report_front_of_queue_witness:
  "trace (hkHandleKey KeyDown scriptedInstance demoStatics ''s''
            (runKeys scriptedInstance demoStatics [(KeyDown, ''ctrl'')]
               (hkHandleFocus scriptedInstance demoStatics [''focus''] blurredWorld))) =
     trace (runKeys scriptedInstance demoStatics [(KeyDown, ''ctrl'')]
              (hkHandleFocus scriptedInstance demoStatics [''focus''] blurredWorld)) @
       [MgrHandleKey KeyDown ''s'' (Some 7) (Some 1) (getEventOptions demoStatics)]"
proof -
  have h: "handleFocus (getKeyEventManager scriptedInstance demoStatics)
             (keyMap (cprops (comp blurredWorld))) (handlers (cprops (comp blurredWorld)))
             (getFocusOptions demoStatics) (mstate blurredWorld)
           = ((8, 1), \<lparr> focusAnswers = [], blurAnswers = [], keyAnswers = [] \<rparr>)"
    by (simp add: blurredWorld_comp getKeyEventManager_def scriptedInstance_def
          scriptedManager_def)
  have r: "hkHandleFocus scriptedInstance demoStatics [''focus''] blurredWorld = refocusedWorld"
    by (simp add: refocusedWorld_def)
  have d: "\<not> dispatchResult KeyDown scriptedInstance demoStatics ''ctrl'' refocusedWorld"
    by (simp add: dispatchResult_def refocusedWorld_comp getKeyEventManager_def
          scriptedInstance_def scriptedManager_def scriptedKey_def)
  show ?thesis
    using keys_report_front_of_queue [OF h, of KeyDown "''s''" "[(KeyDown, ''ctrl'')]"
        "[''focus'']", THEN conjunct1]
    by (simp add: r d blurredWorld_comp queue_def front_def)
qed

section \<open>The component on the manager of the specification\<close>

text \<open>
  The manager of the specification brings a component into the state with an older id in
  front of a newer one, and then has the older id dropped: the key event after the second
  focus is reported with tree 0 although tree 1 was returned last, the dispatch answers
  true for the tree that is gone, and the component moves on to tree 1.
\<close>

lemma specification_manager_refocus:
  "queue (comp outerBlurred) = [0]
   \<and> queue (comp outerRefocused) = [0, 1]
   \<and> componentIndex (comp outerRefocused) = Some 2
   \<and> getFocusTreeId (comp outerRefocused) = Some 0
   \<and> dispatchResult KeyDown (specInstance demoCollaborators) demoStatics ''s'' outerRefocused
   \<and> queue (comp (hkHandleKey KeyDown (specInstance demoCollaborators) demoStatics ''s''
                      outerRefocused)) = [1]"
  by (simp add: outerRefocused_def innerBlurred_def outerBlurred_def innerFocused_def
        outerFocused_def demo_defs hk_defs mgr_defs)

lemma uptoIndex_split:
  "\<forall>r \<in> set rs. regIndex r \<noteq> i \<Longrightarrow> regIndex x = i \<Longrightarrow>
     uptoIndex i (rs @ x # deeper) = Some (rs @ [x])"
  by (induction rs) auto

lemma chainFrom_split:
  "\<forall>r \<in> set rs. regIndex r \<noteq> i \<Longrightarrow> regIndex x = i \<Longrightarrow>
     chainFrom (rs @ x # deeper) (Some i) = x # rev rs"
  by (simp add: chainFrom_def uptoIndex_split)

lemma resolveBindings_inner_first:
  assumes "regKeyMap x = [(a, p)]" and "map_of (regHandlers x) a = Some f"
  shows "\<exists>bs. resolveBindings (x # rest) = (a, p, f, regIndex x) # bs"
  using assms
  by (simp add: resolveBindings_def keyMapEntries_def)

lemma firstComplete_head:
  assumes "mt h name (Single c) = Complete"
  shows "firstComplete mt h name ((a, Single c, f, i) # bs) = Some (a, Single c, f, i)"
  using assms by (simp add: firstComplete_def)

lemma managerHandleKey_spec:
  "managerHandleKey name (specManager D) = mgrDispatch D name"
  by (cases name) (simp_all add: specManager_def)

lemma mgrDispatch_undefined_tree: "mgrDispatch D name e None i opts m = (False, m)"
  by (simp add: mgrDispatch_def)

text \<open>
  C8. A key event delivered to a component that has never gained focus, so that its array
  of focus tree ids is unset, is dispatched with an undefined focus tree id; the dispatch
  routine returns false, invokes no handler and leaves the manager as it was, and the
  component keeps its state, array and component index included.
\<close>

theorem unfocused_key_event_is_inert:
  assumes "focusTreeIds (comp w) = None"
  shows "trace (hkHandleKey name (specInstance D) S e w) =
           trace w @ [MgrHandleKey name e None (componentIndex (comp w)) (getEventOptions S)]
    \<and> dispatchResult name (specInstance D) S e w = False
    \<and> comp (hkHandleKey name (specInstance D) S e w) = comp w
    \<and> mstate (hkHandleKey name (specInstance D) S e w) = mstate w
    \<and> invoked (mstate (hkHandleKey name (specInstance D) S e w)) = invoked (mstate w)"
proof -
  have t: "getFocusTreeId (comp w) = None"
    using assms by (simp add: getFocusTreeId_def)
  have m: "getKeyEventManager (specInstance D) S = specManager D"
    by (simp add: getKeyEventManager_def specInstance_def)
  have d: "dispatchResult name (specInstance D) S e w = False"
    by (simp add: dispatchResult_def t m managerHandleKey_spec mgrDispatch_undefined_tree)
  have ms: "mstate (hkHandleKey name (specInstance D) S e w) = mstate w"
    by (simp add: key_mstate t m managerHandleKey_spec mgrDispatch_undefined_tree)
  show ?thesis
    by (simp add: key_trace key_comp t d ms)
qed

theorem unfocused_key_event_is_inert_witness:
  "trace (hkHandleKey KeyDown (specInstance demoCollaborators) demoStatics ''s''
            (startWorld innerProps nestedManagerState :: demoManagerWorld)) =
     [MgrHandleKey KeyDown ''s'' None None (getEventOptions demoStatics)]
   \<and> invoked (mstate (hkHandleKey KeyDown (specInstance demoCollaborators) demoStatics ''s''
                         (startWorld innerProps nestedManagerState :: demoManagerWorld))) = []"
proof -
  have h: "focusTreeIds (comp (startWorld innerProps nestedManagerState :: demoManagerWorld))
             = None"
    by (simp add: startWorld_def newComponent_def)
  have i: "invoked nestedManagerState = []"
    by (simp add: mgr_defs demo_defs)
  show ?thesis
    using unfocused_key_event_is_inert [OF h, of KeyDown demoCollaborators demoStatics "''s''"]
    by (simp add: startWorld_def newComponent_def i)
qed

text \<open>
  C4. An outer component is registered in a focus tree with the action \<open>save\<close> bound to a
  single combo such as Ctrl+S and the handler \<open>H1\<close>; an inner component is registered
  inside it in the same tree, with \<open>save\<close> bound to the same combo and the handler
  \<open>H2\<close>. When an event that is not ignored completes the combo and is dispatched with the
  inner component as its origin, exactly one handler is invoked, and it is \<open>H2\<close>; \<open>H1\<close> is
  not invoked. Other registrations of the tree, outside or inside the inner component, make
  no difference.
\<close>

theorem inner_handler_shadows_outer:
  assumes "registry m tid = rs @ inner # deeper"
    and "outer \<in> set rs"
    and "regIndex inner = i"
    and "\<forall>r \<in> set rs. regIndex r \<noteq> i"
    and "regKeyMap outer = [(''save'', Single c)]"
    and "regHandlers outer = [(''save'', H1)]"
    and "regKeyMap inner = [(''save'', Single c)]"
    and "regHandlers inner = [(''save'', H2)]"
    and "H1 \<noteq> H2"
    and "\<not> ignoring (defaultIgnore D) opts e"
    and "matcher D (recordEvent (optDefaultKeyEvent (regOptions inner)) name (keyOf D e)
                      (keyHistory m)) name (Single c) = Complete"
  shows "fst (mgrDispatch D name e (Some tid) (Some i) opts m) = False
    \<and> invoked (snd (mgrDispatch D name e (Some tid) (Some i) opts m)) = invoked m @ [(H2, e)]
    \<and> filter (\<lambda>x. fst x = H1) (invoked (snd (mgrDispatch D name e (Some tid) (Some i) opts m)))
        = filter (\<lambda>x. fst x = H1) (invoked m)"
proof -
  have chain: "chainFrom (registry m tid) (Some i) = inner # rev rs"
    using assms(1,3,4) by (simp add: chainFrom_split)
  have "map_of (regHandlers inner) ''save'' = Some H2"
    using assms(8) by simp
  then obtain bs where bs:
    "resolveBindings (inner # rev rs) = (''save'', Single c, H2, regIndex inner) # bs"
    using resolveBindings_inner_first [OF assms(7)] by blast
  have found: "firstComplete (matcher D)
                 (recordEvent (optDefaultKeyEvent (regOptions inner)) name (keyOf D e)
                    (keyHistory m))
                 name (resolveBindings (inner # rev rs))
               = Some (''save'', Single c, H2, regIndex inner)"
    unfolding bs using assms(11) by (simp add: firstComplete_head)
  have run: "mgrDispatch D name e (Some tid) (Some i) opts m =
               (False,
                m\<lparr>keyHistory :=
                     consume (Single c)
                       (recordEvent (optDefaultKeyEvent (regOptions inner)) name (keyOf D e)
                          (keyHistory m)),
                   invoked := invoked m @ [(H2, e)]\<rparr>)"
    using assms(10) by (simp add: mgrDispatch_def chain found Let_def)
  show ?thesis
    using assms(9) by (simp add: run)
qed

theorem inner_handler_shadows_outer_witness:
  "invoked (snd (mgrDispatch demoCollaborators KeyDown ''s'' (Some 0) (Some 1)
                   (getEventOptions demoStatics) nestedManagerState)) = [(''H2'', ''s'')]"
proof -
  let ?outer = "\<lparr> regIndex = 0, regKeyMap = [(''save'', Single ([''ctrl'', ''s''], KeyDown))],
                  regHandlers = [(''save'', ''H1'')],
                  regOptions = \<lparr> optDefaultKeyEvent = KeyPress \<rparr> \<rparr>"
  let ?inner = "\<lparr> regIndex = 1, regKeyMap = [(''save'', Single ([''ctrl'', ''s''], KeyDown))],
                  regHandlers = [(''save'', ''H2'')],
                  regOptions = \<lparr> optDefaultKeyEvent = KeyPress \<rparr> \<rparr>"
  have reg: "registry nestedManagerState 0 = [?outer] @ ?inner # []"
    by (simp add: mgr_defs demo_defs)
  have hist: "keyHistory nestedManagerState = \<lparr> held = [''ctrl''], completed = [] \<rparr>"
    by (simp add: mgr_defs demo_defs)
  have inv: "invoked nestedManagerState = []"
    by (simp add: mgr_defs demo_defs)
  have ign: "\<not> ignoring (defaultIgnore demoCollaborators) (getEventOptions demoStatics) ''s''"
    by (simp add: ignoring_def demo_defs)
  have mt: "matcher demoCollaborators
              (recordEvent (optDefaultKeyEvent (regOptions ?inner)) KeyDown
                 (keyOf demoCollaborators ''s'') (keyHistory nestedManagerState))
              KeyDown (Single ([''ctrl'', ''s''], KeyDown)) = Complete"
    by (simp add: hist demoCollaborators_def recordEvent_def exactMatcher_def)
  show ?thesis
    using inner_handler_shadows_outer [where m = nestedManagerState and tid = 0
        and rs = "[?outer]" and inner = ?inner and deeper = "[]" and outer = ?outer and i = 1
        and c = "([''ctrl'', ''s''], KeyDown)" and ?H1.0 = "''H1''" and ?H2.0 = "''H2''"
        and D = demoCollaborators and opts = "getEventOptions demoStatics" and e = "''s''"
        and name = KeyDown, OF reg _ _ _ _ _ _ _ _ ign mt]
    by (simp add: inv)
qed

end
